theory Spec2Isabelle
  imports Main "HOL-Library.Sublist"
begin

section \<open>The Artificix Telegram bot (bot.py)\<close>

text \<open>
  A shallow embedding of \<^verbatim>\<open>src/bot.py\<close>. Every handler of the source is a function on
  an explicit world: the messages the transport accepted, the pending next-step handlers,
  the outstanding timers and the log. What the source obtains from outside (whether a send
  raises, what the HTTP request and the HTML parser return, the random number) is a field
  of the world that the handlers only read.

  A Python string is a \<^typ>\<open>string\<close> holding its UTF-8 bytes, one \<^typ>\<open>char\<close> per byte, so
  that equality and concatenation are those of the source. Where the source reads
  characters (\<^verbatim>\<open>len\<close>, \<^verbatim>\<open>int\<close>), the model decodes the bytes with \<open>utf8_decode\<close> first.
\<close>

subsection \<open>Data\<close>

text \<open>Python exceptions, each with the text \<^verbatim>\<open>str(e)\<close> gives.\<close>

datatype py_exn = ValueError string | TypeError string | OtherException string

fun str_exn :: "py_exn \<Rightarrow> string" where
  "str_exn (ValueError s) = s"
| "str_exn (TypeError s) = s"
| "str_exn (OtherException s) = s"

fun is_ValueError :: "py_exn \<Rightarrow> bool" where
  "is_ValueError (ValueError s) = True"
| "is_ValueError e = False"

text \<open>
  An inbound message: \<^verbatim>\<open>message.chat.id\<close>, \<^verbatim>\<open>message.chat.type\<close> and
  \<^verbatim>\<open>message.text\<close>, which is \<^verbatim>\<open>None\<close> for a message without text.
\<close>

record message =
  chat_id :: int
  chat_type :: string
  message_text :: "string option"

text \<open>
  The pending next step of a chat: the callback handed to
  \<^verbatim>\<open>register_next_step_handler\<close>, with the extra argument of \<^verbatim>\<open>set_reminder\<close>.
\<close>

datatype step =
    GetMin
  | SetReminder "string option"
  | HandleSportsType
  | HandleFavoriteTeam
  | HandleCurrentSeason
  | HandleNextSport
  | HandleNewSport
  | HandleNewHobby
  | HandleBookType
  | HandleFavBook
  | HandleFavType
  | HandleFavSong
  | HandleArtist
  | HandleEventArt

text \<open>What the bot hands to the transport.\<close>

datatype outmsg =
    SendMessage int string
  | ReplyTo message string
  | ReplyToMarkup message string "string list"

fun dest :: "outmsg \<Rightarrow> int" where
  "dest (SendMessage c t) = c"
| "dest (ReplyTo m t) = chat_id m"
| "dest (ReplyToMarkup m t kb) = chat_id m"

fun body :: "outmsg \<Rightarrow> string" where
  "body (SendMessage c t) = t"
| "body (ReplyTo m t) = t"
| "body (ReplyToMarkup m t kb) = t"

text \<open>
  A started \<^verbatim>\<open>threading.Timer(minutes * 60, send)\<close>: the interval in seconds and the
  two variables the closure \<^verbatim>\<open>send\<close> captured.
\<close>

record reminder_task =
  task_chat :: int
  task_delay :: int
  task_text :: "string option"

datatype log_entry = LogInfo string | LogWarning string | LogException string

record world =
  transport :: "nat \<Rightarrow> py_exn option"
  attempts :: nat
  outbox :: "outmsg list"
  registry :: "int \<Rightarrow> step option"
  timers :: "reminder_task list"
  logged :: "log_entry list"
  http_get :: "py_exn + string"
  find_h3 :: "string \<Rightarrow> py_exn + string list"
  random_index :: nat

text \<open>
  \<^term>\<open>transport w n\<close> is what the \<open>n\<close>-th call of the transport does: \<open>None\<close> when it
  accepts the message, \<open>Some e\<close> when it raises \<open>e\<close>. \<^term>\<open>http_get w\<close> is the outcome of
  \<^verbatim>\<open>requests.get\<close> followed by \<^verbatim>\<open>raise_for_status\<close> (the page text, or the exception),
  \<^term>\<open>find_h3 w\<close> the outcome of parsing a page and reading the text of its
  \<^verbatim>\<open>h3\<close> elements.
\<close>

definition reliable :: "world \<Rightarrow> bool" where
  "reliable w = (\<forall>n. transport w n = None)"

subsection \<open>Computations that may raise\<close>

type_synonym 'a act = "world \<Rightarrow> (py_exn + 'a) \<times> world"

definition ok :: "'a \<Rightarrow> 'a act" where
  "ok x w = (Inr x, w)"

definition raise :: "py_exn \<Rightarrow> 'a act" where
  "raise e w = (Inl e, w)"

definition and_then :: "'a act \<Rightarrow> ('a \<Rightarrow> 'b act) \<Rightarrow> 'b act" where
  "and_then f g w = (case f w of (Inl e, w') \<Rightarrow> (Inl e, w') | (Inr x, w') \<Rightarrow> g x w')"

definition seq :: "'a act \<Rightarrow> 'b act \<Rightarrow> 'b act" where
  "seq f g = and_then f (\<lambda>x. g)"

text \<open>\<^verbatim>\<open>try: body  except C as e: handler\<close>, where \<open>catches\<close> decides the class \<open>C\<close>.\<close>

definition try_except :: "'a act \<Rightarrow> (py_exn \<Rightarrow> bool) \<Rightarrow> (py_exn \<Rightarrow> 'a act) \<Rightarrow> 'a act" where
  "try_except f catches handler w =
     (case f w of
        (Inl e, w') \<Rightarrow> if catches e then handler e w' else (Inl e, w')
      | (Inr x, w') \<Rightarrow> (Inr x, w'))"

subsection \<open>Python's \<^verbatim>\<open>str\<close> and \<^verbatim>\<open>int\<close>\<close>

definition digit_char :: "nat \<Rightarrow> char" where
  "digit_char d = char_of (48 + d)"

function str_nat :: "nat \<Rightarrow> string" where
  "str_nat n = (if n < 10 then [digit_char n] else str_nat (n div 10) @ [digit_char (n mod 10)])"
  by pat_completeness auto
termination
  by (relation "measure (\<lambda>n. n)") auto

declare str_nat.simps [simp del]

definition str_int :: "int \<Rightarrow> string" where
  "str_int i = (if i < 0 then CHR ''-'' # str_nat (nat (- i)) else str_nat (nat i))"

text \<open>\<^verbatim>\<open>f'{x}'\<close> for a value that is a string or \<^verbatim>\<open>None\<close>.\<close>

fun str_opt :: "string option \<Rightarrow> string" where
  "str_opt None = ''None''"
| "str_opt (Some s) = s"

text \<open>\<^verbatim>\<open>x or default\<close> for a value that is a string or \<^verbatim>\<open>None\<close>: the empty string is false.\<close>

fun or_else :: "string option \<Rightarrow> string \<Rightarrow> string" where
  "or_else None d = d"
| "or_else (Some s) d = (if s = [] then d else s)"

text \<open>
  The characters of a string: its UTF-8 bytes decoded to code points. \<open>need\<close> counts the
  continuation bytes still expected and \<open>acc\<close> holds the bits read so far. A Python string
  is always the encoding of its characters; on bytes that are not, the decoder yields
  U+FFFD for the byte it cannot place.
\<close>

fun utf8_run :: "nat \<Rightarrow> nat \<Rightarrow> string \<Rightarrow> nat list" where
  "utf8_run need acc [] = (if need = 0 then [] else [65533])"
| "utf8_run need acc (c # cs) =
     (if need = 0 then
        (if (of_char c :: nat) < 128 then of_char c # utf8_run 0 0 cs
         else if 192 \<le> (of_char c :: nat) \<and> (of_char c :: nat) < 224
         then utf8_run 1 (of_char c - 192) cs
         else if 224 \<le> (of_char c :: nat) \<and> (of_char c :: nat) < 240
         then utf8_run 2 (of_char c - 224) cs
         else if 240 \<le> (of_char c :: nat) \<and> (of_char c :: nat) < 248
         then utf8_run 3 (of_char c - 240) cs
         else 65533 # utf8_run 0 0 cs)
      else if 128 \<le> (of_char c :: nat) \<and> (of_char c :: nat) < 192 then
        (if need = 1 then (acc * 64 + (of_char c - 128)) # utf8_run 0 0 cs
         else utf8_run (need - 1) (acc * 64 + (of_char c - 128)) cs)
      else 65533 # utf8_run 0 0 cs)"

definition utf8_decode :: "string \<Rightarrow> nat list" where
  "utf8_decode s = utf8_run 0 0 s"

text \<open>\<^verbatim>\<open>len(s)\<close>: the number of characters.\<close>

definition py_len :: "string \<Rightarrow> nat" where
  "py_len s = length (utf8_decode s)"

text \<open>
  \<^verbatim>\<open>int(s)\<close> on a string, as CPython 3.11 computes it. First every character from 127 on
  is replaced: white space by a blank, a decimal digit of any script by its ASCII digit,
  and at any other character the string is cut and ends in a question mark. The ASCII
  result is then read in base 10: ASCII white space around the number is dropped, one sign
  may lead, single underscores may separate digits, and more than 4300 digits are refused.
  \<open>None\<close> is Python's ValueError.
\<close>

text \<open>\<^verbatim>\<open>Py_UNICODE_ISSPACE\<close>, by code point.\<close>

definition unicode_space :: "nat \<Rightarrow> bool" where
  "unicode_space cp =
     (cp \<in> set [9, 10, 11, 12, 13, 28, 29, 30, 31, 32, 133, 160, 5760,
                8192, 8193, 8194, 8195, 8196, 8197, 8198, 8199, 8200, 8201, 8202,
                8232, 8233, 8239, 8287, 12288])"

text \<open>
  The digit zero of every script with decimal digits (Unicode 14.0); the digits one to nine
  of a script follow its zero.
\<close>

definition decimal_zeros :: "nat list" where
  "decimal_zeros =
     [48, 1632, 1776, 1984, 2406, 2534, 2662, 2790, 2918, 3046, 3174, 3302, 3430,
      3558, 3664, 3792, 3872, 4160, 4240, 6112, 6160, 6470, 6608, 6784, 6800, 6992,
      7088, 7232, 7248, 42528, 43216, 43264, 43472, 43504, 43600, 44016, 65296,
      66720, 68912, 69734, 69872, 69942, 70096, 70384, 70736, 70864, 71248, 71360,
      71472, 71904, 72016, 72784, 73040, 73120, 92768, 92864, 93008, 120782, 120792,
      120802, 120812, 120822, 123200, 123632, 125264, 130032]"

text \<open>\<^verbatim>\<open>Py_UNICODE_TODECIMAL\<close>: the value of a decimal digit, \<open>None\<close> for any other character.\<close>

definition to_decimal :: "nat \<Rightarrow> nat option" where
  "to_decimal cp =
     (case filter (\<lambda>z. z \<le> cp \<and> cp < z + 10) decimal_zeros of
        [] \<Rightarrow> None
      | z # zs \<Rightarrow> Some (cp - z))"

fun to_ascii :: "nat list \<Rightarrow> string" where
  "to_ascii [] = []"
| "to_ascii (cp # cps) =
     (if cp < 127 then char_of cp # to_ascii cps
      else if unicode_space cp then CHR '' '' # to_ascii cps
      else (case to_decimal cp of
              None \<Rightarrow> ''?''
            | Some d \<Rightarrow> digit_char d # to_ascii cps))"

text \<open>\<^verbatim>\<open>Py_ISSPACE\<close>: the white space of ASCII.\<close>

definition is_space :: "char \<Rightarrow> bool" where
  "is_space c = (of_char c \<in> set [9, 10, 11, 12, 13, 32 :: nat])"

definition is_digit :: "char \<Rightarrow> bool" where
  "is_digit c = (48 \<le> (of_char c :: nat) \<and> (of_char c :: nat) \<le> 57)"

definition digit_val :: "char \<Rightarrow> int" where
  "digit_val c = int (of_char c) - 48"

definition strip :: "string \<Rightarrow> string" where
  "strip s = rev (dropWhile is_space (rev (dropWhile is_space s)))"

fun py_digits :: "int \<Rightarrow> string \<Rightarrow> int option" where
  "py_digits acc [] = Some acc"
| "py_digits acc [c] = (if is_digit c then Some (acc * 10 + digit_val c) else None)"
| "py_digits acc (c # d # cs) =
     (if is_digit c then py_digits (acc * 10 + digit_val c) (d # cs)
      else if c = CHR ''_'' \<and> is_digit d then py_digits acc (d # cs)
      else None)"

fun py_unsigned :: "string \<Rightarrow> int option" where
  "py_unsigned [] = None"
| "py_unsigned (c # cs) = (if is_digit c then py_digits 0 (c # cs) else None)"

fun py_signed :: "string \<Rightarrow> int option" where
  "py_signed [] = None"
| "py_signed (c # cs) =
     (if c = CHR ''-'' then map_option uminus (py_unsigned cs)
      else if c = CHR ''+'' then py_unsigned cs
      else py_unsigned (c # cs))"

text \<open>\<^verbatim>\<open>sys.int_info.default_max_str_digits\<close>\<close>

definition MAX_STR_DIGITS :: nat where
  "MAX_STR_DIGITS = 4300"

definition py_int :: "string \<Rightarrow> int option" where
  "py_int s =
     (if MAX_STR_DIGITS < length (filter is_digit (to_ascii (utf8_decode s))) then None
      else py_signed (strip (to_ascii (utf8_decode s))))"

text \<open>\<^verbatim>\<open>int(message.text)\<close>: \<^verbatim>\<open>int(None)\<close> raises TypeError, a bad string ValueError.\<close>

definition int_of_none :: py_exn where
  "int_of_none =
     TypeError (''int() argument must be a string, a bytes-like object or a real number, not 'NoneType'' @ [CHR 0x27])"

definition int_of_text :: "string option \<Rightarrow> int act" where
  "int_of_text t =
     (case t of
        None \<Rightarrow> raise int_of_none
      | Some s \<Rightarrow>
          (case py_int s of
             None \<Rightarrow> raise (ValueError (''invalid literal for int() with base 10: '' @ s))
           | Some n \<Rightarrow> ok n))"

subsection \<open>The transport, the log and the registry\<close>

text \<open>
  \<^verbatim>\<open>bot.send_message\<close> and \<^verbatim>\<open>bot.reply_to\<close>: one call of the transport. A message the
  transport accepts joins the outbox; otherwise the call raises. \<open>send_message\<close> returns the
  chat of the message it sent, which is all its callers read from the result.
\<close>

definition transmit :: "outmsg \<Rightarrow> unit act" where
  "transmit x w =
     (case transport w (attempts w) of
        Some e \<Rightarrow> (Inl e, w\<lparr>attempts := Suc (attempts w)\<rparr>)
      | None \<Rightarrow> (Inr (), w\<lparr>attempts := Suc (attempts w), outbox := outbox w @ [x]\<rparr>))"

definition send_message :: "int \<Rightarrow> string \<Rightarrow> int act" where
  "send_message c t = seq (transmit (SendMessage c t)) (ok c)"

definition reply_to :: "message \<Rightarrow> string \<Rightarrow> unit act" where
  "reply_to m t = transmit (ReplyTo m t)"

definition reply_to_markup :: "message \<Rightarrow> string \<Rightarrow> string list \<Rightarrow> unit act" where
  "reply_to_markup m t kb = transmit (ReplyToMarkup m t kb)"

definition logger :: "log_entry \<Rightarrow> unit act" where
  "logger l w = (Inr (), w\<lparr>logged := logged w @ [l]\<rparr>)"

text \<open>
  Modelled from the spec: the Conversation Registry, which the source reaches through
  \<^verbatim>\<open>bot.register_next_step_handler\<close> of the telebot library and which is not part of
  \<^verbatim>\<open>src/\<close>. \<open>register\<close> installs or overwrites the pending continuation of a chat;
  \<open>take\<close> retrieves and clears it, returning \<open>None\<close> if none is pending.
\<close>

definition register :: "int \<Rightarrow> step \<Rightarrow> world \<Rightarrow> world" where
  "register c k w = w\<lparr>registry := (registry w)(c := Some k)\<rparr>"

definition take :: "int \<Rightarrow> world \<Rightarrow> step option \<times> world" where
  "take c w = (registry w c, w\<lparr>registry := (registry w)(c := None)\<rparr>)"

definition register_next_step_handler :: "int \<Rightarrow> step \<Rightarrow> unit act" where
  "register_next_step_handler c k w = (Inr (), register c k w)"

subsection \<open>Utilities\<close>

definition MAX_NEWS_ITEMS :: int where
  "MAX_NEWS_ITEMS = 10"

definition requests_get :: "string act" where
  "requests_get w = (http_get w, w)"

definition soup_h3 :: "string \<Rightarrow> string list act" where
  "soup_h3 page w = (find_h3 w page, w)"

text \<open>
  The loop of \<^verbatim>\<open>fetch_bbc_headlines\<close> over the headlines still to visit, with
  \<open>cleaned\<close> as built so far. The test against \<open>limit\<close> comes after the append.
\<close>

fun clean_loop :: "int \<Rightarrow> string list \<Rightarrow> string list \<Rightarrow> string list" where
  "clean_loop limit [] cleaned = cleaned"
| "clean_loop limit (h # hs) cleaned =
     (if py_len h < 5 then clean_loop limit hs cleaned
      else if h \<in> set cleaned then clean_loop limit hs cleaned
      else if int (length (cleaned @ [h])) \<ge> limit then cleaned @ [h]
      else clean_loop limit hs (cleaned @ [h]))"

definition fetch_bbc_headlines :: "int \<Rightarrow> string list act" where
  "fetch_bbc_headlines limit w =
     (case requests_get w of
        (Inl e, w1) \<Rightarrow>
          seq (logger (LogWarning (''Failed to fetch BBC headlines: '' @ str_exn e)))
              (ok [''Could not fetch news: '' @ str_exn e]) w1
      | (Inr resp, w1) \<Rightarrow>
          try_except
            (and_then (soup_h3 resp) (\<lambda>headlines.
               if clean_loop limit headlines [] = [] then ok [''No headlines found.'']
               else ok (clean_loop limit headlines [])))
            (\<lambda>e. True)
            (\<lambda>e. seq (logger (LogException ''Error parsing BBC page''))
                      (ok [''Error parsing news page: '' @ str_exn e])) w1)"

text \<open>The closure \<^verbatim>\<open>send\<close> of \<^verbatim>\<open>schedule_reminder\<close>, over the variables it captures.\<close>

definition send :: "int \<Rightarrow> string option \<Rightarrow> unit act" where
  "send c t =
     try_except
       (seq (send_message c (''Reminder: '' @ str_opt t)) (ok ()))
       (\<lambda>e. True)
       (\<lambda>e. logger (LogException (''Failed to send reminder to '' @ str_int c)))"

definition start_timer :: "reminder_task \<Rightarrow> unit act" where
  "start_timer t w = (Inr (), w\<lparr>timers := timers w @ [t]\<rparr>)"

definition schedule_reminder :: "int \<Rightarrow> int \<Rightarrow> string option \<Rightarrow> unit act" where
  "schedule_reminder c minutes t =
     seq (start_timer \<lparr>task_chat = c, task_delay = minutes * 60, task_text = t\<rparr>)
         (logger (LogInfo (''Scheduled reminder for chat '' @ str_int c @ '' in ''
                           @ str_int minutes @ '' minute(s)'')))"

text \<open>
  Modelled from the spec: the firing of a timer, done by \<^verbatim>\<open>threading.Timer\<close> and not by
  code under \<^verbatim>\<open>src/\<close>. A ReminderTask is one-shot: when its deadline elapses it leaves the
  outstanding tasks and its callback runs once.
\<close>

definition timer_fires :: "nat \<Rightarrow> unit act" where
  "timer_fires i w =
     (if i < length (timers w)
      then send (task_chat (timers w ! i)) (task_text (timers w ! i))
             (w\<lparr>timers := List.take i (timers w) @ List.drop (Suc i) (timers w)\<rparr>)
      else (Inr (), w))"

subsection \<open>Command handlers\<close>

definition em_dash :: string where
  "em_dash = [CHR 0xE2, CHR 0x80, CHR 0x94]"

definition start :: "message \<Rightarrow> unit act" where
  "start m = reply_to m (''Hello '' @ em_dash @ '' this is Artificix bot. Use /help for available commands.'')"

definition help_text :: string where
  "help_text =
     ''Here are the possible commands:'' @ [CHR 0x0A] @
     ''/alert - set a reminder'' @ [CHR 0x0A] @
     ''/chat - start an interactive chat'' @ [CHR 0x0A] @
     ''/news - get latest news headlines'' @ [CHR 0x0A] @
     ''/about - about this bot'' @ [CHR 0x0A] @
     ''/contact - contact links'' @ [CHR 0x0A] @
     ''/quote - random quote'' @ [CHR 0x0A] @
     ''/extra - extra commands (private chats only)'' @ [CHR 0x0A]"

definition help_cmd :: "message \<Rightarrow> unit act" where
  "help_cmd m = seq (send_message (chat_id m) help_text) (ok ())"

definition about :: "message \<Rightarrow> unit act" where
  "about m =
     seq (send_message (chat_id m)
            (''Hi '' @ em_dash @ '' I'm @Artificix_prototype_bot. I'm a simple Telegram bot that can set alerts and chat with you.''))
         (ok ())"

definition contact :: "message \<Rightarrow> unit act" where
  "contact m =
     seq (send_message (chat_id m)
            ''You can contact us at https://t.me/Sneh_Joshi or https://t.me/Itachi98089'')
         (ok ())"

definition quotes :: "string list" where
  "quotes =
     [''Life is abundant, and life is beautiful. - Alice Walker'',
      ''Keep your head high, keep your chin up, and most importantly, keep smiling. - Marilyn Monroe'',
      ''I think being in love with life is a key to eternal youth. - Doug Hutchison'',
      ''Life is beautiful and so are you. - Debasish Mridha'',
      ''The purpose of our lives is to be happy. - Dalai Lama'',
      ''Life is really simple, but we insist on making it complicated. - Confucius'',
      ''Life is like riding a bicycle. To keep your balance, you must keep moving. - Albert Einstein'']"

text \<open>\<^verbatim>\<open>random.choice\<close> on a non-empty list: the element at the world's random index.\<close>

definition random_choice :: "string list \<Rightarrow> string act" where
  "random_choice xs w = (Inr (xs ! (random_index w mod length xs)), w)"

definition send_quote :: "message \<Rightarrow> unit act" where
  "send_quote m = and_then (random_choice quotes) (\<lambda>quote. reply_to m quote)"

definition extra_commands_message :: string where
  "extra_commands_message =
     ''Here are the extra commands:'' @ [CHR 0x0A] @
     ''/flower, /animal, /food, /wonder, /vehicle, /country''"

definition extra_refusal :: string where
  "extra_refusal = ''The /extra command and its subcommands are not available in group chats.''"

definition extra :: "message \<Rightarrow> unit act" where
  "extra m =
     (if chat_type m = ''private''
      then seq (send_message (chat_id m) extra_commands_message) (ok ())
      else seq (send_message (chat_id m) extra_refusal) (ok ()))"

text \<open>\<^verbatim>\<open>for item in items: bot.send_message(chat_id, item)\<close>\<close>

fun send_each :: "int \<Rightarrow> string list \<Rightarrow> unit act" where
  "send_each c [] = ok ()"
| "send_each c (item # items) = seq (send_message c item) (send_each c items)"

definition private_only :: string where
  "private_only = ''This command is only available in private chats.''"

definition send_list_privately :: "message \<Rightarrow> string list \<Rightarrow> unit act" where
  "send_list_privately msg items =
     (if chat_type msg \<noteq> ''private''
      then seq (send_message (chat_id msg) private_only) (ok ())
      else send_each (chat_id msg) items)"

definition flowers :: "string list" where
  "flowers =
     [''Rose'', ''Lily'', ''Daisy'', ''Tulip'', ''Sunflower'', ''Orchid'', ''Carnation'',
      ''Peony'', ''Chrysanthemum'', ''Hydrangea'', ''Iris'', ''Poppy'', ''Marigold'', ''Gerbera'']"

definition flower :: "message \<Rightarrow> unit act" where
  "flower m = send_list_privately m flowers"

definition animals :: "string list" where
  "animals =
     [''Lion'', ''Tiger'', ''Elephant'', ''Giraffe'', ''Hippopotamus'', ''Crocodile'',
      ''Monkey'', ''Kangaroo'', ''Penguin'', ''Zebra'', ''Hedgehog'', ''Panda'', ''Koala'', ''Gorilla'']"

definition animal :: "message \<Rightarrow> unit act" where
  "animal m = send_list_privately m animals"

definition foods :: "string list" where
  "foods =
     [''Pizza'', ''Burger'', ''Taco'', ''Sushi'', ''Pasta'', ''Fried Chicken'', ''Steak'',
      ''Noodle Soup'', ''Hotdog'', ''Ramen'']"

definition food :: "message \<Rightarrow> unit act" where
  "food m = send_list_privately m foods"

definition vehicles :: "string list" where
  "vehicles =
     [''Car'', ''Truck'', ''Motorcycle'', ''Bicycle'', ''Boat'', ''Airplane'',
      ''Helicopter'', ''Train'', ''Bus'', ''Scooter'']"

definition vehicle :: "message \<Rightarrow> unit act" where
  "vehicle m = send_list_privately m vehicles"

definition countries :: "string list" where
  "countries =
     [''USA'', ''Canada'', ''UK'', ''Germany'', ''France'', ''Italy'', ''Japan'', ''China'',
      ''Brazil'', ''Russia'', ''India'']"

definition country :: "message \<Rightarrow> unit act" where
  "country m = send_list_privately m countries"

definition wonders :: "string list" where
  "wonders =
     [''Great Pyramid of Giza'', ''Hanging Gardens of Babylon'',
      ''Temple of Artemis at Ephesus'', ''Statue of Zeus at Olympia'',
      ''Mausoleum at Halicarnassus'', ''Colossus of Rhodes'', ''Lighthouse of Alexandria'']"

definition wonder :: "message \<Rightarrow> unit act" where
  "wonder m = send_list_privately m wonders"

subsection \<open>The reminder flow\<close>

definition get_name :: "message \<Rightarrow> unit act" where
  "get_name m =
     and_then (send_message (chat_id m) ''What should I remind you about?'')
       (\<lambda>sent_chat. register_next_step_handler sent_chat GetMin)"

definition get_min :: "message \<Rightarrow> unit act" where
  "get_min m =
     and_then (send_message (chat_id m) ''In how many minutes? (Please enter time in minutes)'')
       (\<lambda>sent_chat. register_next_step_handler sent_chat (SetReminder (message_text m)))"

definition set_reminder :: "message \<Rightarrow> string option \<Rightarrow> unit act" where
  "set_reminder m reminder_text =
     try_except
       (and_then (int_of_text (message_text m)) (\<lambda>minutes.
          if minutes \<le> 0
          then reply_to m ''Please enter a positive number of minutes.''
          else seq (send_message (chat_id m)
                      (''Reminder set for '' @ str_int minutes @ '' minutes: '' @ str_opt reminder_text))
                   (schedule_reminder (chat_id m) minutes reminder_text)))
       is_ValueError
       (\<lambda>e. reply_to m ''Invalid number of minutes. Please enter a positive integer.'')"

subsection \<open>The news command\<close>

definition send_news :: "message \<Rightarrow> unit act" where
  "send_news m =
     (if chat_type m \<noteq> ''private''
      then seq (send_message (chat_id m) ''News is not available in group chats.'') (ok ())
      else and_then (fetch_bbc_headlines MAX_NEWS_ITEMS) (\<lambda>headlines. send_each (chat_id m) headlines))"

subsection \<open>The topic chat\<close>

definition keyboard_markup :: "string list" where
  "keyboard_markup = [''Sports'', ''Reading'', ''Music'', ''Art'']"

definition send_welcome :: "message \<Rightarrow> unit act" where
  "send_welcome m =
     reply_to_markup m
       ''Hi there! I'm a chatbot that can chat with you about your interests. Choose an option:''
       keyboard_markup"

definition handle_message :: "message \<Rightarrow> unit act" where
  "handle_message m =
     (if or_else (message_text m) '''' = ''Sports''
      then seq (reply_to m ''Great choice! What kind of sports are you interested in?'')
               (register_next_step_handler (chat_id m) HandleSportsType)
      else if or_else (message_text m) '''' = ''Reading''
      then seq (reply_to m ''Awesome! What kind of books do you like to read?'')
               (register_next_step_handler (chat_id m) HandleBookType)
      else if or_else (message_text m) '''' = ''Music''
      then seq (reply_to m ''Cool! What kind of music do you like to listen to?'')
               (register_next_step_handler (chat_id m) HandleFavType)
      else if or_else (message_text m) '''' = ''Art''
      then seq (reply_to m ''Awesome! Are you an artist?'')
               (register_next_step_handler (chat_id m) HandleArtist)
      else ok ())"

definition handle_sports_type :: "message \<Rightarrow> unit act" where
  "handle_sports_type m =
     seq (reply_to m ''Nice! What's your favorite team?'')
         (register_next_step_handler (chat_id m) HandleFavoriteTeam)"

definition handle_favorite_team :: "message \<Rightarrow> unit act" where
  "handle_favorite_team m =
     seq (reply_to m ''Great choice! What do you think of their current season so far?'')
         (register_next_step_handler (chat_id m) HandleCurrentSeason)"

definition handle_current_season :: "message \<Rightarrow> unit act" where
  "handle_current_season m =
     seq (reply_to m ''Do you think they can improve ?'')
         (register_next_step_handler (chat_id m) HandleNextSport)"

definition handle_next_sport :: "message \<Rightarrow> unit act" where
  "handle_next_sport m =
     seq (reply_to m ''What else sports you are interested in?'')
         (register_next_step_handler (chat_id m) HandleNewSport)"

definition handle_new_sport :: "message \<Rightarrow> unit act" where
  "handle_new_sport m =
     seq (reply_to m (''have you taken part in '' @ or_else (message_text m) ''that sport'' @ ''?''))
         (register_next_step_handler (chat_id m) HandleNewHobby)"

definition handle_new_hobby :: "message \<Rightarrow> unit act" where
  "handle_new_hobby m = reply_to m ''Great to know!''"

definition handle_book_type :: "message \<Rightarrow> unit act" where
  "handle_book_type m =
     seq (reply_to m ''What is your favourite book?'')
         (register_next_step_handler (chat_id m) HandleFavBook)"

definition handle_fav_book :: "message \<Rightarrow> unit act" where
  "handle_fav_book m = reply_to m ''Great to know''"

definition handle_fav_type :: "message \<Rightarrow> unit act" where
  "handle_fav_type m =
     seq (reply_to m ''Amazing choice. What's your fav song?'')
         (register_next_step_handler (chat_id m) HandleFavSong)"

definition handle_fav_song :: "message \<Rightarrow> unit act" where
  "handle_fav_song m = reply_to m ''Great choice!''"

definition handle_artist :: "message \<Rightarrow> unit act" where
  "handle_artist m =
     seq (reply_to m ''Have you taken part in any art event?'')
         (register_next_step_handler (chat_id m) HandleEventArt)"

definition handle_event_art :: "message \<Rightarrow> unit act" where
  "handle_event_art m = reply_to m ''Great to know!''"

subsection \<open>Dispatch\<close>

text \<open>The callback a pending step stands for.\<close>

fun run_step :: "step \<Rightarrow> message \<Rightarrow> unit act" where
  "run_step GetMin m = get_min m"
| "run_step (SetReminder reminder_text) m = set_reminder m reminder_text"
| "run_step HandleSportsType m = handle_sports_type m"
| "run_step HandleFavoriteTeam m = handle_favorite_team m"
| "run_step HandleCurrentSeason m = handle_current_season m"
| "run_step HandleNextSport m = handle_next_sport m"
| "run_step HandleNewSport m = handle_new_sport m"
| "run_step HandleNewHobby m = handle_new_hobby m"
| "run_step HandleBookType m = handle_book_type m"
| "run_step HandleFavBook m = handle_fav_book m"
| "run_step HandleFavType m = handle_fav_type m"
| "run_step HandleFavSong m = handle_fav_song m"
| "run_step HandleArtist m = handle_artist m"
| "run_step HandleEventArt m = handle_event_art m"

text \<open>The command table, in the order of the \<^verbatim>\<open>@bot.message_handler(commands=[...])\<close> decorators.\<close>

definition commands :: "(string \<times> (message \<Rightarrow> unit act)) list" where
  "commands =
     [(''start'', start), (''help'', help_cmd), (''about'', about), (''contact'', contact),
      (''quote'', send_quote), (''extra'', extra), (''flower'', flower), (''animal'', animal),
      (''food'', food), (''vehicle'', vehicle), (''country'', country), (''wonder'', wonder),
      (''alert'', get_name), (''news'', send_news), (''chat'', send_welcome)]"

text \<open>
  Modelled from the spec: the Command Dispatcher, which is the telebot library's polling
  loop and not part of \<^verbatim>\<open>src/\<close>. The command token of a text is what follows a leading
  command marker \<^verbatim>\<open>/\<close>, up to the first white space. On each inbound message the dispatcher
  first takes the chat's continuation and, if there is one, invokes it and stops; otherwise a
  text whose command token is a registered command name goes to that command's handler; any
  other message goes to the fallback handler \<open>handle_message\<close>.
\<close>

definition command_token :: "string option \<Rightarrow> string option" where
  "command_token t =
     (case t of
        None \<Rightarrow> None
      | Some [] \<Rightarrow> None
      | Some (c # cs) \<Rightarrow> if c = CHR ''/'' then Some (takeWhile (\<lambda>x. \<not> is_space x) cs) else None)"

definition dispatch :: "message \<Rightarrow> unit act" where
  "dispatch m w =
     (case take (chat_id m) w of
        (Some k, w') \<Rightarrow> run_step k m w'
      | (None, w') \<Rightarrow>
          (case command_token (message_text m) of
             None \<Rightarrow> handle_message m w'
           | Some cmd \<Rightarrow>
               (case map_of commands cmd of
                  None \<Rightarrow> handle_message m w'
                | Some handler \<Rightarrow> handler m w')))"

text \<open>
  The messages of a conversation dispatched in order. A handler that raises ends the
  handling of its own message only.
\<close>

fun dispatch_all :: "message list \<Rightarrow> world \<Rightarrow> world" where
  "dispatch_all [] w = w"
| "dispatch_all (m # ms) w = dispatch_all ms (snd (dispatch m w))"

text \<open>The continuations the dispatcher takes from the registry while it handles the messages.\<close>

fun steps_run :: "message list \<Rightarrow> world \<Rightarrow> step list" where
  "steps_run [] w = []"
| "steps_run (m # ms) w =
     (case fst (take (chat_id m) w) of
        None \<Rightarrow> steps_run ms (snd (dispatch m w))
      | Some k \<Rightarrow> k # steps_run ms (snd (dispatch m w)))"

text \<open>
  The world at process start: nothing sent, nothing pending, no timer, with a transport
  that accepts every message and a news page without headlines.
\<close>

definition startup :: world where
  "startup =
     \<lparr>transport = (\<lambda>n. None), attempts = 0, outbox = [], registry = (\<lambda>c. None), timers = [],
      logged = [], http_get = Inr [], find_h3 = (\<lambda>page. Inr []), random_index = 0\<rparr>"

definition inbound :: "int \<Rightarrow> string \<Rightarrow> string option \<Rightarrow> message" where
  "inbound c ty x = \<lparr>chat_id = c, chat_type = ty, message_text = x\<rparr>"

definition private_text :: "int \<Rightarrow> string \<Rightarrow> message" where
  "private_text c s = \<lparr>chat_id = c, chat_type = ''private'', message_text = Some s\<rparr>"

definition group_text :: "int \<Rightarrow> string \<Rightarrow> message" where
  "group_text c s = \<lparr>chat_id = c, chat_type = ''group'', message_text = Some s\<rparr>"

text \<open>Worlds in which the outside fails: no network for the news, a page that does not
  parse, a page with headlines, and a transport that refuses every message while one timer is
  outstanding.\<close>

definition offline :: world where
  "offline = startup\<lparr>http_get := Inl (OtherException ''connection timed out'')\<rparr>"

definition unparsable :: world where
  "unparsable = startup\<lparr>http_get := Inr ''<html>'',
      find_h3 := (\<lambda>page. Inl (OtherException ''bad markup''))\<rparr>"

text \<open>The four characters of \<^verbatim>\<open>Caf\<close> followed by e with acute accent, in five bytes.\<close>

definition cafe :: string where
  "cafe = ''Caf'' @ [CHR 0xC3, CHR 0xA9]"

definition front_page :: world where
  "front_page = startup\<lparr>http_get := Inr ''<html>'',
      find_h3 := (\<lambda>page. Inr [''Hello world'', ''abc'', cafe, ''Hello world'', ''Second one'', ''Third one''])\<rparr>"

definition broken_line :: world where
  "broken_line = startup\<lparr>transport := (\<lambda>n. Some (OtherException ''network unreachable'')),
      timers := [\<lparr>task_chat = 9, task_delay = 60, task_text = Some ''tea''\<rparr>]\<rparr>"

section \<open>Properties\<close>

subsection \<open>Auxiliary facts\<close>

lemmas act_defs = ok_def raise_def and_then_def seq_def try_except_def transmit_def
  send_message_def reply_to_def reply_to_markup_def logger_def register_def
  register_next_step_handler_def take_def start_timer_def

lemma reliable_transport [simp]: "reliable w \<Longrightarrow> transport w n = None"
  by (simp add: reliable_def)

lemma reliable_upd [simp]:
  "reliable (w\<lparr>attempts := a\<rparr>) = reliable w"
  "reliable (w\<lparr>outbox := ob\<rparr>) = reliable w"
  "reliable (w\<lparr>registry := r\<rparr>) = reliable w"
  "reliable (w\<lparr>timers := ts\<rparr>) = reliable w"
  "reliable (w\<lparr>logged := l\<rparr>) = reliable w"
  by (simp_all add: reliable_def)

lemma reliable_startup: "reliable startup"
  by (simp add: reliable_def startup_def)

subsection \<open>The registry\<close>



subsection \<open>The fallback handler\<close>

text \<open>
  Claim C9. A message whose text is none of the four keywords Sports, Reading, Music and
  Art (a message without text included) is ignored by the fallback handler
  \<open>handle_message\<close>: it returns normally and leaves the world as it was, so nothing is sent
  and no continuation is registered. The dispatcher hands every message to the fallback
  handler that finds no continuation pending and names no registered command, so such a
  message leaves the world unchanged there as well.
\<close>

theorem handle_message_ignores_other_text:
  "message_text m \<notin> {Some ''Sports'', Some ''Reading'', Some ''Music'', Some ''Art''} \<Longrightarrow>
   handle_message m w = (Inr (), w)
   \<and> (registry w (chat_id m) = None
        \<and> (\<forall>cmd. command_token (message_text m) = Some cmd \<longrightarrow> map_of commands cmd = None)
       \<longrightarrow> dispatch m w = (Inr (), w))"
proof -
  assume other: "message_text m \<notin> {Some ''Sports'', Some ''Reading'', Some ''Music'', Some ''Art''}"
  have ignored: "handle_message m v = (Inr (), v)" for v
    using other by (cases "message_text m") (auto simp: handle_message_def ok_def)
  have "dispatch m w = (Inr (), w)"
    if none: "registry w (chat_id m) = None"
      and cmds: "\<forall>cmd. command_token (message_text m) = Some cmd \<longrightarrow> map_of commands cmd = None"
  proof -
    have same: "w\<lparr>registry := (registry w)(chat_id m := None)\<rparr> = w"
      using none by (simp add: fun_upd_idem)
    show ?thesis
    proof (cases "command_token (message_text m)")
      case None
      then show ?thesis
        using none same by (simp add: dispatch_def take_def ignored)
    next
      case (Some cmd)
      then have "map_of commands cmd = None"
        using cmds by simp
      then show ?thesis
        using Some none same by (simp add: dispatch_def take_def ignored)
    qed
  qed
  then show ?thesis
    using ignored by simp
qed

theorem handle_message_ignores_other_text_witness:
  "message_text (group_text 3 ''hello there'')
     \<notin> {Some ''Sports'', Some ''Reading'', Some ''Music'', Some ''Art''}
   \<and> registry startup (chat_id (group_text 3 ''hello there'')) = None
   \<and> command_token (message_text (group_text 3 ''hello there'')) = None
   \<and> handle_message (group_text 3 ''hello there'') startup = (Inr (), startup)
   \<and> dispatch (group_text 3 ''hello there'') startup = (Inr (), startup)"
proof -
  have other: "message_text (group_text 3 ''hello there'')
     \<notin> {Some ''Sports'', Some ''Reading'', Some ''Music'', Some ''Art''}"
    by (simp add: group_text_def)
  have none: "registry startup (chat_id (group_text 3 ''hello there'')) = None"
    by (simp add: startup_def)
  have cmds: "\<forall>cmd. command_token (message_text (group_text 3 ''hello there'')) = Some cmd
        \<longrightarrow> map_of commands cmd = None"
    by (simp add: group_text_def command_token_def)
  have token: "command_token (message_text (group_text 3 ''hello there'')) = None"
    by (simp add: group_text_def command_token_def)
  show ?thesis
    using other none cmds token
      handle_message_ignores_other_text [OF other, of startup]
    by blast
qed

subsection \<open>The private lists\<close>

lemma send_each_reliable:
  "reliable w \<Longrightarrow> send_each c items w =
     (Inr (), w\<lparr>attempts := attempts w + length items, outbox := outbox w @ map (SendMessage c) items\<rparr>)"
  by (induction items arbitrary: w) (simp_all add: act_defs)

lemma send_list_privately_private:
  "reliable w \<Longrightarrow> chat_type m = ''private'' \<Longrightarrow>
   outbox (snd (send_list_privately m items w)) = outbox w @ map (SendMessage (chat_id m)) items"
  by (simp add: send_list_privately_def send_each_reliable)

lemma send_list_privately_other:
  "reliable w \<Longrightarrow> chat_type m \<noteq> ''private'' \<Longrightarrow>
   outbox (snd (send_list_privately m items w)) = outbox w @ [SendMessage (chat_id m) private_only]"
  by (simp add: send_list_privately_def act_defs)

text \<open>
  Claim C7. With a transport that accepts what it is given: for a message whose chat type
  is not \<^verbatim>\<open>private\<close>, the extra command sends exactly its refusal and each of flower,
  animal, food, vehicle, country and wonder sends exactly the refusal of
  \<open>send_list_privately\<close>, so no list content is sent; for a message whose chat type is
  \<^verbatim>\<open>private\<close>, extra sends the list of sub-commands and each sub-command sends the items
  of its list, one message per item, in order.
\<close>

theorem extra_lists_private_only:
  assumes "reliable w"
  shows "(chat_type m \<noteq> ''private'' \<longrightarrow>
            outbox (snd (extra m w)) = outbox w @ [SendMessage (chat_id m) extra_refusal]
          \<and> (\<forall>h \<in> {flower, animal, food, vehicle, country, wonder}.
               outbox (snd (h m w)) = outbox w @ [SendMessage (chat_id m) private_only]))
       \<and> (chat_type m = ''private'' \<longrightarrow>
            outbox (snd (extra m w)) = outbox w @ [SendMessage (chat_id m) extra_commands_message]
          \<and> outbox (snd (flower m w)) = outbox w @ map (SendMessage (chat_id m)) flowers
          \<and> outbox (snd (animal m w)) = outbox w @ map (SendMessage (chat_id m)) animals
          \<and> outbox (snd (food m w)) = outbox w @ map (SendMessage (chat_id m)) foods
          \<and> outbox (snd (vehicle m w)) = outbox w @ map (SendMessage (chat_id m)) vehicles
          \<and> outbox (snd (country m w)) = outbox w @ map (SendMessage (chat_id m)) countries
          \<and> outbox (snd (wonder m w)) = outbox w @ map (SendMessage (chat_id m)) wonders)"
proof (intro conjI impI)
  assume np: "chat_type m \<noteq> ''private''"
  show "outbox (snd (extra m w)) = outbox w @ [SendMessage (chat_id m) extra_refusal]"
    using assms np by (simp add: extra_def act_defs)
  show "\<forall>h \<in> {flower, animal, food, vehicle, country, wonder}.
               outbox (snd (h m w)) = outbox w @ [SendMessage (chat_id m) private_only]"
    using assms np
    by (simp add: flower_def animal_def food_def vehicle_def country_def wonder_def
        send_list_privately_other)
next
  assume p: "chat_type m = ''private''"
  show "outbox (snd (extra m w)) = outbox w @ [SendMessage (chat_id m) extra_commands_message]"
    using assms p by (simp add: extra_def act_defs)
  show "outbox (snd (flower m w)) = outbox w @ map (SendMessage (chat_id m)) flowers"
    using assms p by (simp add: flower_def send_list_privately_private)
  show "outbox (snd (animal m w)) = outbox w @ map (SendMessage (chat_id m)) animals"
    using assms p by (simp add: animal_def send_list_privately_private)
  show "outbox (snd (food m w)) = outbox w @ map (SendMessage (chat_id m)) foods"
    using assms p by (simp add: food_def send_list_privately_private)
  show "outbox (snd (vehicle m w)) = outbox w @ map (SendMessage (chat_id m)) vehicles"
    using assms p by (simp add: vehicle_def send_list_privately_private)
  show "outbox (snd (country m w)) = outbox w @ map (SendMessage (chat_id m)) countries"
    using assms p by (simp add: country_def send_list_privately_private)
  show "outbox (snd (wonder m w)) = outbox w @ map (SendMessage (chat_id m)) wonders"
    using assms p by (simp add: wonder_def send_list_privately_private)
qed

theorem extra_lists_private_only_witness:
  "reliable startup
   \<and> chat_type (group_text 5 ''/flower'') \<noteq> ''private''
   \<and> chat_type (private_text 6 ''/flower'') = ''private''
   \<and> outbox (snd (flower (group_text 5 ''/flower'') startup)) = [SendMessage 5 private_only]
   \<and> outbox (snd (extra (group_text 5 ''/extra'') startup)) = [SendMessage 5 extra_refusal]
   \<and> outbox (snd (extra (private_text 6 ''/extra'') startup)) = [SendMessage 6 extra_commands_message]
   \<and> outbox (snd (flower (private_text 6 ''/flower'') startup)) = map (SendMessage 6) flowers"
proof -
  have np: "chat_type (group_text 5 s) \<noteq> ''private''" for s
    by (simp add: group_text_def)
  have p: "chat_type (private_text 6 s) = ''private''" for s
    by (simp add: private_text_def)
  have ob: "outbox startup = []"
    by (simp add: startup_def)
  have c5: "chat_id (group_text 5 s) = 5" for s by (simp add: group_text_def)
  have c6: "chat_id (private_text 6 s) = 6" for s by (simp add: private_text_def)
  show ?thesis
    using np p ob c5 c6 reliable_startup
      extra_lists_private_only [OF reliable_startup, of "group_text 5 ''/flower''"]
      extra_lists_private_only [OF reliable_startup, of "group_text 5 ''/extra''"]
      extra_lists_private_only [OF reliable_startup, of "private_text 6 ''/extra''"]
      extra_lists_private_only [OF reliable_startup, of "private_text 6 ''/flower''"]
    by simp
qed

subsection \<open>A reminder that fires\<close>

text \<open>
  Claim C8. The callback \<open>send\<close> of a reminder returns normally whatever the transport
  does, starts no timer and registers no continuation. When the transport raises, nothing
  joins the outbox and the failure is logged. A timer that fires leaves the outstanding
  timers, its callback returns normally, and the number of outstanding timers drops by one:
  the task is not queued again.
\<close>

theorem reminder_send_failure_swallowed:
  "fst (send c t w) = Inr ()
   \<and> timers (snd (send c t w)) = timers w
   \<and> registry (snd (send c t w)) = registry w
   \<and> (transport w (attempts w) \<noteq> None \<longrightarrow>
        outbox (snd (send c t w)) = outbox w
        \<and> logged (snd (send c t w)) = logged w @ [LogException (''Failed to send reminder to '' @ str_int c)])
   \<and> (i < length (timers w) \<longrightarrow>
        fst (timer_fires i w) = Inr ()
        \<and> timers (snd (timer_fires i w)) = List.take i (timers w) @ List.drop (Suc i) (timers w)
        \<and> length (timers (snd (timer_fires i w))) = length (timers w) - 1)"
proof -
  have s: "fst (send c t v) = Inr () \<and> timers (snd (send c t v)) = timers v
      \<and> registry (snd (send c t v)) = registry v" for c t v
    by (cases "transport v (attempts v)") (simp_all add: send_def act_defs)
  have f: "transport w (attempts w) \<noteq> None \<longrightarrow>
        outbox (snd (send c t w)) = outbox w
        \<and> logged (snd (send c t w)) = logged w @ [LogException (''Failed to send reminder to '' @ str_int c)]"
    by (cases "transport w (attempts w)") (simp_all add: send_def act_defs)
  have t: "i < length (timers w) \<longrightarrow>
        fst (timer_fires i w) = Inr ()
        \<and> timers (snd (timer_fires i w)) = List.take i (timers w) @ List.drop (Suc i) (timers w)
        \<and> length (timers (snd (timer_fires i w))) = length (timers w) - 1"
    using s by (auto simp: timer_fires_def)
  show ?thesis using s f t by blast
qed

theorem reminder_send_failure_swallowed_witness:
  "transport broken_line (attempts broken_line) \<noteq> None
   \<and> 0 < length (timers broken_line)
   \<and> fst (send 9 (Some ''tea'') broken_line) = Inr ()
   \<and> outbox (snd (send 9 (Some ''tea'') broken_line)) = []
   \<and> fst (timer_fires 0 broken_line) = Inr ()
   \<and> timers (snd (timer_fires 0 broken_line)) = []"
proof -
  have raises: "transport broken_line (attempts broken_line) \<noteq> None"
    by (simp add: broken_line_def)
  have one: "0 < length (timers broken_line)"
    by (simp add: broken_line_def)
  have ts: "timers broken_line = [\<lparr>task_chat = 9, task_delay = 60, task_text = Some ''tea''\<rparr>]"
    by (simp add: broken_line_def)
  have ob: "outbox broken_line = []"
    by (simp add: broken_line_def startup_def)
  show ?thesis
    using raises one ts ob
      reminder_send_failure_swallowed [of 9 "Some ''tea''" broken_line 0]
    by simp
qed

subsection \<open>The headlines\<close>

lemma clean_loop_distinct:
  "distinct cleaned \<Longrightarrow> distinct (clean_loop limit hs cleaned)"
  by (induction limit hs cleaned rule: clean_loop.induct) simp_all

lemma clean_loop_bound:
  "int (length cleaned) < limit \<Longrightarrow> int (length (clean_loop limit hs cleaned)) \<le> limit"
  by (induction limit hs cleaned rule: clean_loop.induct) simp_all

lemma clean_loop_long:
  "list_all (\<lambda>h. 5 \<le> py_len h) cleaned \<Longrightarrow>
   list_all (\<lambda>h. 5 \<le> py_len h) (clean_loop limit hs cleaned)"
  by (induction limit hs cleaned rule: clean_loop.induct) simp_all

lemma py_len_examples:
  "py_len ''No headlines found.'' = 19"
  "py_len ''Hello world'' = 11"
  "py_len ''abc'' = 3"
  "py_len cafe = 4"
  "py_len ''Second one'' = 10"
  "py_len ''Third one'' = 9"
  by code_simp+

lemma fetch_cases:
  "fst (fetch_bbc_headlines limit w) =
     (case http_get w of
        Inl e \<Rightarrow> Inr [''Could not fetch news: '' @ str_exn e]
      | Inr page \<Rightarrow>
          (case find_h3 w page of
             Inl e \<Rightarrow> Inr [''Error parsing news page: '' @ str_exn e]
           | Inr hs \<Rightarrow> Inr (if clean_loop limit hs [] = [] then [''No headlines found.'']
                            else clean_loop limit hs [])))"
  by (simp add: fetch_bbc_headlines_def requests_get_def soup_h3_def act_defs
      split: sum.splits)

text \<open>
  Claim C6. \<open>fetch_bbc_headlines\<close> never raises: for every limit and every world it returns
  a list. When the HTTP request raises it returns the single string
  \<^verbatim>\<open>Could not fetch news: \<close> followed by the text of the exception, and when the page
  cannot be parsed the single string \<^verbatim>\<open>Error parsing news page: \<close> followed by the text
  of the exception.
\<close>

theorem fetch_bbc_headlines_never_raises:
  "(\<exists>hs. fst (fetch_bbc_headlines limit w) = Inr hs)
   \<and> (\<forall>e. http_get w = Inl e \<longrightarrow>
         fst (fetch_bbc_headlines limit w) = Inr [''Could not fetch news: '' @ str_exn e])
   \<and> (\<forall>page e. http_get w = Inr page \<and> find_h3 w page = Inl e \<longrightarrow>
         fst (fetch_bbc_headlines limit w) = Inr [''Error parsing news page: '' @ str_exn e])"
  by (simp add: fetch_cases split: sum.splits)

theorem fetch_bbc_headlines_never_raises_witness:
  "http_get offline = Inl (OtherException ''connection timed out'')
   \<and> fst (fetch_bbc_headlines 10 offline) = Inr [''Could not fetch news: connection timed out'']
   \<and> http_get unparsable = Inr ''<html>''
   \<and> find_h3 unparsable ''<html>'' = Inl (OtherException ''bad markup'')
   \<and> fst (fetch_bbc_headlines 10 unparsable) = Inr [''Error parsing news page: bad markup'']"
proof -
  have down: "http_get offline = Inl (OtherException ''connection timed out'')"
    by (simp add: offline_def)
  have page: "http_get unparsable = Inr ''<html>''"
    by (simp add: unparsable_def)
  have bad: "find_h3 unparsable ''<html>'' = Inl (OtherException ''bad markup'')"
    by (simp add: unparsable_def)
  show ?thesis
    using down page bad
      fetch_bbc_headlines_never_raises [of 10 offline]
      fetch_bbc_headlines_never_raises [of 10 unparsable]
    by simp
qed

text \<open>
  Claim C10, as stated, fails for a limit below one: the loop tests the limit after it has
  appended, and every failure path returns one string, so with limit 0 the result has one
  element.
\<close>

theorem fetch_limit_zero_counterexample:
  "fst (fetch_bbc_headlines 0 front_page) = Inr [''Hello world'']
   \<and> \<not> int (length [''Hello world'']) \<le> 0"
  by (simp add: fetch_cases front_page_def py_len_examples)

text \<open>
  Claim C10, amended. For every limit and every world \<open>fetch_bbc_headlines\<close> returns a list
  that is not empty and has no duplicates; for every limit of at least one the list has at
  most limit elements; and when both the request and the parse succeed every returned string
  has at least 5 characters.
\<close>

theorem fetch_bbc_headlines_postconditions:
  "\<exists>hs. fst (fetch_bbc_headlines limit w) = Inr hs
     \<and> hs \<noteq> []
     \<and> distinct hs
     \<and> (1 \<le> limit \<longrightarrow> int (length hs) \<le> limit)
     \<and> (\<forall>page headlines. http_get w = Inr page \<and> find_h3 w page = Inr headlines \<longrightarrow>
          (\<forall>h \<in> set hs. 5 \<le> py_len h))"
proof (cases "http_get w")
  case (Inl e)
  then show ?thesis by (simp add: fetch_cases)
next
  case page: (Inr page)
  show ?thesis
  proof (cases "find_h3 w page")
    case (Inl e)
    then show ?thesis using page by (simp add: fetch_cases)
  next
    case (Inr headlines)
    let ?c = "clean_loop limit headlines []"
    have d: "distinct ?c" by (simp add: clean_loop_distinct)
    have b: "1 \<le> limit \<longrightarrow> int (length ?c) \<le> limit" by (simp add: clean_loop_bound)
    have "list_all (\<lambda>h. 5 \<le> py_len h) ?c" by (rule clean_loop_long) simp
    then have l: "\<forall>h \<in> set ?c. 5 \<le> py_len h" by (simp add: list_all_iff)
    show ?thesis
    proof (cases "?c = []")
      case True
      then show ?thesis using page Inr by (simp add: fetch_cases py_len_examples)
    next
      case False
      then show ?thesis using page Inr d b l by (simp add: fetch_cases)
    qed
  qed
qed

theorem fetch_bbc_headlines_postconditions_witness:
  "(1::int) \<le> 2
   \<and> http_get front_page = Inr ''<html>''
   \<and> find_h3 front_page ''<html>''
        = Inr [''Hello world'', ''abc'', cafe, ''Hello world'', ''Second one'', ''Third one'']
   \<and> fst (fetch_bbc_headlines 2 front_page) = Inr [''Hello world'', ''Second one'']
   \<and> int (length [''Hello world'', ''Second one'']) \<le> 2
   \<and> distinct [''Hello world'', ''Second one'']
   \<and> list_all (\<lambda>h. 5 \<le> py_len h) [''Hello world'', ''Second one'']"
proof -
  have page: "http_get front_page = Inr ''<html>''"
    by (simp add: front_page_def)
  have heads: "find_h3 front_page ''<html>''
        = Inr [''Hello world'', ''abc'', cafe, ''Hello world'', ''Second one'', ''Third one'']"
    by (simp add: front_page_def)
  have other: "cafe \<noteq> ''Hello world''"
    by (simp add: cafe_def)
  have run: "fst (fetch_bbc_headlines 2 front_page) = Inr [''Hello world'', ''Second one'']"
    using page heads other by (simp add: fetch_cases py_len_examples)
  show ?thesis
    using page heads run fetch_bbc_headlines_postconditions [of 2 front_page]
    by (simp add: py_len_examples)
qed

subsection \<open>The reminder flow\<close>

lemma py_int_30: "py_int ''30'' = Some 30"
  by code_simp

lemma py_int_abc: "py_int ''abc'' = None"
  by code_simp

lemma py_int_minus_5: "py_int ''-5'' = Some (- 5)"
  by code_simp

lemma str_int_30: "str_int 30 = ''30''"
  by code_simp

lemma token_alert: "command_token (Some ''/alert'') = Some ''alert''"
  by code_simp

lemma alert_handler: "map_of commands ''alert'' = Some get_name"
  by (simp add: commands_def)

lemma alert_run:
  assumes rel: "reliable w"
    and idle: "registry w c = None"
  shows "dispatch_all
            [inbound c t1 (Some ''/alert''), inbound c t2 (Some ''buy milk''),
             inbound c t3 (Some ''30'')] w
         = w\<lparr>attempts := Suc (Suc (Suc (attempts w))),
             outbox := outbox w @
               [SendMessage c ''What should I remind you about?'',
                SendMessage c ''In how many minutes? (Please enter time in minutes)'',
                SendMessage c ''Reminder set for 30 minutes: buy milk''],
             registry := (registry w)(c := None),
             timers := timers w @ [\<lparr>task_chat = c, task_delay = 30 * 60, task_text = Some ''buy milk''\<rparr>],
             logged := logged w @ [LogInfo (''Scheduled reminder for chat '' @ str_int c @ '' in 30 minute(s)'')]\<rparr>"
  using rel idle
  by (simp add: dispatch_def take_def token_alert alert_handler get_name_def get_min_def
      set_reminder_def int_of_text_def py_int_30 str_int_30 schedule_reminder_def act_defs
      inbound_def)

text \<open>
  Claim C2. In a chat with nothing pending and a transport that accepts the sends, the
  messages \<^verbatim>\<open>/alert\<close>, \<^verbatim>\<open>buy milk\<close> and \<^verbatim>\<open>30\<close> start exactly one timer: its interval is
  30 * 60 seconds, counted by the timer from its start, and its text is \<^verbatim>\<open>buy milk\<close>.
  The bot has sent the two prompts and the confirmation, and no continuation is left. When
  that timer fires, the one message sent is \<^verbatim>\<open>Reminder: buy milk\<close>, to the same chat, and
  the timer is gone.
\<close>

theorem reminder_happy_path:
  assumes rel: "reliable w"
    and idle: "registry w c = None"
    and run: "w' = dispatch_all
            [inbound c t1 (Some ''/alert''), inbound c t2 (Some ''buy milk''),
             inbound c t3 (Some ''30'')] w"
  shows "timers w' = timers w @ [\<lparr>task_chat = c, task_delay = 30 * 60, task_text = Some ''buy milk''\<rparr>]
     \<and> outbox w' = outbox w @
               [SendMessage c ''What should I remind you about?'',
                SendMessage c ''In how many minutes? (Please enter time in minutes)'',
                SendMessage c ''Reminder set for 30 minutes: buy milk'']
     \<and> registry w' c = None
     \<and> outbox (snd (timer_fires (length (timers w)) w')) = outbox w' @ [SendMessage c ''Reminder: buy milk'']
     \<and> timers (snd (timer_fires (length (timers w)) w')) = timers w"
proof -
  note r = alert_run [OF rel idle, of t1 t2 t3, folded run]
  have rel': "reliable w'" using rel by (simp add: r)
  have t: "timers w' = timers w @ [\<lparr>task_chat = c, task_delay = 30 * 60, task_text = Some ''buy milk''\<rparr>]"
    by (simp add: r)
  have o: "outbox w' = outbox w @
               [SendMessage c ''What should I remind you about?'',
                SendMessage c ''In how many minutes? (Please enter time in minutes)'',
                SendMessage c ''Reminder set for 30 minutes: buy milk'']"
    by (simp add: r)
  have g: "registry w' c = None" by (simp add: r)
  have f: "outbox (snd (timer_fires (length (timers w)) w')) = outbox w' @ [SendMessage c ''Reminder: buy milk'']
     \<and> timers (snd (timer_fires (length (timers w)) w')) = timers w"
    using rel' by (simp add: timer_fires_def t send_def act_defs)
  show ?thesis using t o g f by simp
qed

theorem reminder_happy_path_witness:
  "reliable startup
   \<and> registry startup 7 = None
   \<and> timers (dispatch_all [inbound 7 ''private'' (Some ''/alert''),
                           inbound 7 ''private'' (Some ''buy milk''),
                           inbound 7 ''private'' (Some ''30'')] startup)
       = [\<lparr>task_chat = 7, task_delay = 1800, task_text = Some ''buy milk''\<rparr>]
   \<and> outbox (snd (timer_fires 0
        (dispatch_all [inbound 7 ''private'' (Some ''/alert''),
                       inbound 7 ''private'' (Some ''buy milk''),
                       inbound 7 ''private'' (Some ''30'')] startup)))
       = [SendMessage 7 ''What should I remind you about?'',
          SendMessage 7 ''In how many minutes? (Please enter time in minutes)'',
          SendMessage 7 ''Reminder set for 30 minutes: buy milk'',
          SendMessage 7 ''Reminder: buy milk'']
   \<and> timers (snd (timer_fires 0
        (dispatch_all [inbound 7 ''private'' (Some ''/alert''),
                       inbound 7 ''private'' (Some ''buy milk''),
                       inbound 7 ''private'' (Some ''30'')] startup))) = []"
proof -
  have idle: "registry startup 7 = None"
    by (simp add: startup_def)
  have none: "timers startup = []" "outbox startup = []"
    by (simp_all add: startup_def)
  note happy = reminder_happy_path [OF reliable_startup idle refl, of "''private''" "''private''" "''private''"]
  show ?thesis
    using reliable_startup idle happy
    unfolding none by simp
qed

text \<open>
  A message without text at the minutes step: \<^verbatim>\<open>int(None)\<close> raises TypeError, which
  \<^verbatim>\<open>except ValueError\<close> does not catch, so the handler raises and the world stays as it
  was.
\<close>

lemma set_reminder_without_text:
  "message_text m = None \<Longrightarrow> set_reminder m rt w = (Inl int_of_none, w)"
  by (simp add: set_reminder_def int_of_text_def int_of_none_def act_defs)

text \<open>
  A message with text at the minutes step, and a transport that accepts the send: a text
  that \<^verbatim>\<open>int\<close> rejects, or reads as a number not above zero, gets exactly one reply, the
  error message of its case; \<open>set_reminder\<close> returns normally, starts no timer and registers
  nothing, and after the dispatch the chat has no continuation.
\<close>

lemma set_reminder_rejects_bad_text:
  assumes rel: "reliable w"
    and has_text: "message_text m = Some s"
    and bad: "py_int s = None \<or> (\<exists>n. py_int s = Some n \<and> n \<le> 0)"
  shows "fst (set_reminder m rt w) = Inr ()
     \<and> outbox (snd (set_reminder m rt w)) = outbox w @
          [ReplyTo m (if py_int s = None
                      then ''Invalid number of minutes. Please enter a positive integer.''
                      else ''Please enter a positive number of minutes.'')]
     \<and> timers (snd (set_reminder m rt w)) = timers w
     \<and> registry (snd (set_reminder m rt w)) = registry w
     \<and> (registry w (chat_id m) = Some (SetReminder rt) \<longrightarrow>
          registry (snd (dispatch m w)) (chat_id m) = None
          \<and> timers (snd (dispatch m w)) = timers w
          \<and> length (outbox (snd (dispatch m w))) = length (outbox w) + 1)"
proof -
  have core: "fst (set_reminder m rt v) = Inr ()
     \<and> outbox (snd (set_reminder m rt v)) = outbox v @
          [ReplyTo m (if py_int s = None
                      then ''Invalid number of minutes. Please enter a positive integer.''
                      else ''Please enter a positive number of minutes.'')]
     \<and> timers (snd (set_reminder m rt v)) = timers v
     \<and> registry (snd (set_reminder m rt v)) = registry v" if "reliable v" for v
    using that has_text bad
    by (auto simp: set_reminder_def int_of_text_def act_defs)
  have disp: "registry (snd (dispatch m w)) (chat_id m) = None
          \<and> timers (snd (dispatch m w)) = timers w
          \<and> length (outbox (snd (dispatch m w))) = length (outbox w) + 1"
    if pending: "registry w (chat_id m) = Some (SetReminder rt)"
  proof -
    let ?v = "w\<lparr>registry := (registry w)(chat_id m := None)\<rparr>"
    have d: "dispatch m w = set_reminder m rt ?v"
      using pending by (simp add: dispatch_def take_def)
    have "reliable ?v" using rel by simp
    from core [OF this] show ?thesis
      by (simp add: d)
  qed
  show ?thesis
    using core [OF rel] disp by blast
qed

text \<open>
  Claim C3 holds for every message with text (\<open>set_reminder_rejects_bad_text\<close>) and fails
  on the code for a message without text, which \<^verbatim>\<open>int\<close> cannot read either. After
  \<^verbatim>\<open>/alert\<close> and \<^verbatim>\<open>buy milk\<close>, with a transport that accepts every send, a message without
  text reaches \<open>set_reminder\<close>: the handler raises the TypeError of \<^verbatim>\<open>int(None)\<close>, which is
  no ValueError, and the outbox holds the two prompts and no error reply.
\<close>

theorem minutes_step_without_text_raises:
  "registry (dispatch_all [inbound 4 ''private'' (Some ''/alert''),
                          inbound 4 ''private'' (Some ''buy milk'')] startup) 4
     = Some (SetReminder (Some ''buy milk''))
   \<and> fst (dispatch (inbound 4 ''private'' None)
        (dispatch_all [inbound 4 ''private'' (Some ''/alert''),
                       inbound 4 ''private'' (Some ''buy milk'')] startup))
     = Inl int_of_none
   \<and> \<not> is_ValueError int_of_none
   \<and> outbox (snd (dispatch (inbound 4 ''private'' None)
        (dispatch_all [inbound 4 ''private'' (Some ''/alert''),
                       inbound 4 ''private'' (Some ''buy milk'')] startup)))
     = [SendMessage 4 ''What should I remind you about?'',
        SendMessage 4 ''In how many minutes? (Please enter time in minutes)'']
   \<and> timers (snd (dispatch (inbound 4 ''private'' None)
        (dispatch_all [inbound 4 ''private'' (Some ''/alert''),
                       inbound 4 ''private'' (Some ''buy milk'')] startup)))
     = []"
proof -
  define w where "w = dispatch_all [inbound 4 ''private'' (Some ''/alert''),
                          inbound 4 ''private'' (Some ''buy milk'')] startup"
  have run: "w = startup\<lparr>attempts := 2,
        outbox := [SendMessage 4 ''What should I remind you about?'',
                   SendMessage 4 ''In how many minutes? (Please enter time in minutes)''],
        registry := (\<lambda>c. None)(4 := Some (SetReminder (Some ''buy milk'')))\<rparr>"
    by (simp add: w_def dispatch_def take_def token_alert alert_handler get_name_def
        get_min_def act_defs inbound_def startup_def)
  have pending: "registry w 4 = Some (SetReminder (Some ''buy milk''))"
    by (simp add: run)
  have raised: "dispatch (inbound 4 ''private'' None) w
      = (Inl int_of_none, w\<lparr>registry := (registry w)(4 := None)\<rparr>)"
    using pending
    by (simp add: dispatch_def take_def inbound_def set_reminder_without_text)
  have sent: "outbox w = [SendMessage 4 ''What should I remind you about?'',
                   SendMessage 4 ''In how many minutes? (Please enter time in minutes)'']"
    and idle: "timers w = []"
    by (simp_all add: run startup_def)
  have no_value_error: "\<not> is_ValueError int_of_none"
    by (simp add: int_of_none_def)
  show ?thesis
    unfolding w_def [symmetric]
    using pending sent idle no_value_error by (simp add: raised)
qed

subsection \<open>The topic chains\<close>

lemmas chain_defs = dispatch_def handle_message_def handle_sports_type_def
  handle_favorite_team_def handle_current_season_def handle_next_sport_def
  handle_new_sport_def handle_new_hobby_def handle_book_type_def handle_fav_book_def
  handle_fav_type_def handle_fav_song_def handle_artist_def handle_event_art_def

lemma token_plain:
  "command_token (Some ''Sports'') = None"
  "command_token (Some ''Reading'') = None"
  "command_token (Some ''Music'') = None"
  "command_token (Some ''Art'') = None"
  by (simp_all add: command_token_def)

text \<open>
  Claim C4, as stated, fails: the reply to the prompt asking what kind of sports the user
  is interested in goes to \<open>handle_sports_type\<close>, whose prompt is fixed. After the keyword
  Sports and the reply Baseball the next prompt is \<^verbatim>\<open>Nice! What's your favorite team?\<close>.
\<close>

theorem sports_first_reply_counterexample:
  "body (last (outbox (dispatch_all [private_text 1 ''Sports'', private_text 1 ''Baseball''] startup)))
     = ''Nice! What's your favorite team?''
   \<and> \<not> sublist ''Baseball''
        (body (last (outbox (dispatch_all [private_text 1 ''Sports'', private_text 1 ''Baseball''] startup))))"
proof -
  have run: "body (last (outbox (dispatch_all [private_text 1 ''Sports'', private_text 1 ''Baseball''] startup)))
     = ''Nice! What's your favorite team?''"
    by (simp add: chain_defs take_def token_plain act_defs private_text_def startup_def)
  have "\<not> sublist ''Baseball'' ''Nice! What's your favorite team?''"
    by (simp add: sublist_code)
  then show ?thesis using run by simp
qed

text \<open>
  Claim C4, amended. In the Sports chain the reply that is embedded is the one to the
  prompt \<^verbatim>\<open>What else sports you are interested in?\<close>, handled by \<open>handle_new_sport\<close>: in a
  chat with nothing pending and a transport that accepts the sends, after the keyword
  Sports and four further replies, a non-empty reply \<open>s\<close> (such as Baseball) is answered by
  the prompt \<^verbatim>\<open>have you taken part in \<close>\<open>s\<close>\<^verbatim>\<open>?\<close>, which contains \<open>s\<close>; the four prompts before
  it are fixed.
\<close>

theorem sports_interpolation:
  assumes rel: "reliable w"
    and idle: "registry w c = None"
    and named: "s \<noteq> []"
  shows "outbox (dispatch_all
           [inbound c t0 (Some ''Sports''), inbound c t1 x1, inbound c t2 x2, inbound c t3 x3,
            inbound c t4 x4, inbound c t5 (Some s)] w)
         = outbox w @
           [ReplyTo (inbound c t0 (Some ''Sports'')) ''Great choice! What kind of sports are you interested in?'',
            ReplyTo (inbound c t1 x1) ''Nice! What's your favorite team?'',
            ReplyTo (inbound c t2 x2) ''Great choice! What do you think of their current season so far?'',
            ReplyTo (inbound c t3 x3) ''Do you think they can improve ?'',
            ReplyTo (inbound c t4 x4) ''What else sports you are interested in?'',
            ReplyTo (inbound c t5 (Some s)) (''have you taken part in '' @ s @ ''?'')]
     \<and> sublist s (body (last (outbox (dispatch_all
           [inbound c t0 (Some ''Sports''), inbound c t1 x1, inbound c t2 x2, inbound c t3 x3,
            inbound c t4 x4, inbound c t5 (Some s)] w))))"
proof -
  have run: "outbox (dispatch_all
           [inbound c t0 (Some ''Sports''), inbound c t1 x1, inbound c t2 x2, inbound c t3 x3,
            inbound c t4 x4, inbound c t5 (Some s)] w)
         = outbox w @
           [ReplyTo (inbound c t0 (Some ''Sports'')) ''Great choice! What kind of sports are you interested in?'',
            ReplyTo (inbound c t1 x1) ''Nice! What's your favorite team?'',
            ReplyTo (inbound c t2 x2) ''Great choice! What do you think of their current season so far?'',
            ReplyTo (inbound c t3 x3) ''Do you think they can improve ?'',
            ReplyTo (inbound c t4 x4) ''What else sports you are interested in?'',
            ReplyTo (inbound c t5 (Some s)) (''have you taken part in '' @ s @ ''?'')]"
    using rel idle named
    by (simp add: chain_defs take_def token_plain act_defs inbound_def)
  have "sublist s (''have you taken part in '' @ s @ ''?'')"
    by (rule sublist_appendI)
  then show ?thesis
    unfolding run by simp
qed

theorem sports_interpolation_witness:
  "reliable startup
   \<and> registry startup 1 = None
   \<and> ''Baseball'' \<noteq> []
   \<and> map body (outbox (dispatch_all
           [inbound 1 ''private'' (Some ''Sports''), inbound 1 ''private'' (Some ''football''),
            inbound 1 ''private'' (Some ''Ajax''), inbound 1 ''private'' (Some ''fine''),
            inbound 1 ''private'' (Some ''yes''), inbound 1 ''private'' (Some ''Baseball'')] startup))
       = [''Great choice! What kind of sports are you interested in?'',
          ''Nice! What's your favorite team?'',
          ''Great choice! What do you think of their current season so far?'',
          ''Do you think they can improve ?'',
          ''What else sports you are interested in?'',
          ''have you taken part in Baseball?'']
   \<and> sublist ''Baseball'' (body (last (outbox (dispatch_all
           [inbound 1 ''private'' (Some ''Sports''), inbound 1 ''private'' (Some ''football''),
            inbound 1 ''private'' (Some ''Ajax''), inbound 1 ''private'' (Some ''fine''),
            inbound 1 ''private'' (Some ''yes''), inbound 1 ''private'' (Some ''Baseball'')] startup))))"
proof -
  let ?ms = "[inbound 1 ''private'' (Some ''Sports''), inbound 1 ''private'' (Some ''football''),
            inbound 1 ''private'' (Some ''Ajax''), inbound 1 ''private'' (Some ''fine''),
            inbound 1 ''private'' (Some ''yes''), inbound 1 ''private'' (Some ''Baseball'')]"
  have idle: "registry startup 1 = None"
    by (simp add: startup_def)
  have named: "''Baseball'' \<noteq> []"
    by simp
  have none: "outbox startup = []"
    by (simp add: startup_def)
  note embedded = sports_interpolation [OF reliable_startup idle named,
      of "''private''" "''private''" "Some ''football''" "''private''" "Some ''Ajax''"
         "''private''" "Some ''fine''" "''private''" "Some ''yes''" "''private''"]
  have run: "outbox (dispatch_all ?ms startup)
      = [ReplyTo (inbound 1 ''private'' (Some ''Sports'')) ''Great choice! What kind of sports are you interested in?'',
         ReplyTo (inbound 1 ''private'' (Some ''football'')) ''Nice! What's your favorite team?'',
         ReplyTo (inbound 1 ''private'' (Some ''Ajax'')) ''Great choice! What do you think of their current season so far?'',
         ReplyTo (inbound 1 ''private'' (Some ''fine'')) ''Do you think they can improve ?'',
         ReplyTo (inbound 1 ''private'' (Some ''yes'')) ''What else sports you are interested in?'',
         ReplyTo (inbound 1 ''private'' (Some ''Baseball'')) ''have you taken part in Baseball?'']"
    using embedded [THEN conjunct1] none by (simp del: dispatch_all.simps)
  have shown: "sublist ''Baseball'' (body (last (outbox (dispatch_all ?ms startup))))"
    by (rule embedded [THEN conjunct2])
  have bodies: "map body (outbox (dispatch_all ?ms startup))
       = [''Great choice! What kind of sports are you interested in?'',
          ''Nice! What's your favorite team?'',
          ''Great choice! What do you think of their current season so far?'',
          ''Do you think they can improve ?'',
          ''What else sports you are interested in?'',
          ''have you taken part in Baseball?'']"
    unfolding run by simp
  show ?thesis
    using reliable_startup idle bodies shown by (simp del: dispatch_all.simps)
qed

text \<open>
  Claim C5, as stated, fails for the Sports chain: after the keyword, six continuations are
  taken from the registry in turn, one more than five.
\<close>

theorem sports_chain_six_steps_counterexample:
  "steps_run [private_text 1 ''Sports'', private_text 1 ''football'', private_text 1 ''Ajax'',
              private_text 1 ''fine'', private_text 1 ''yes'', private_text 1 ''Baseball'',
              private_text 1 ''no''] startup
     = [HandleSportsType, HandleFavoriteTeam, HandleCurrentSeason, HandleNextSport,
        HandleNewSport, HandleNewHobby]
   \<and> \<not> length (steps_run [private_text 1 ''Sports'', private_text 1 ''football'', private_text 1 ''Ajax'',
              private_text 1 ''fine'', private_text 1 ''yes'', private_text 1 ''Baseball'',
              private_text 1 ''no''] startup) \<le> 5"
proof -
  have run: "steps_run [private_text 1 ''Sports'', private_text 1 ''football'', private_text 1 ''Ajax'',
              private_text 1 ''fine'', private_text 1 ''yes'', private_text 1 ''Baseball'',
              private_text 1 ''no''] startup
     = [HandleSportsType, HandleFavoriteTeam, HandleCurrentSeason, HandleNextSport,
        HandleNewSport, HandleNewHobby]"
    by (simp add: chain_defs take_def token_plain act_defs private_text_def startup_def)
  show ?thesis unfolding run by simp
qed

text \<open>
  Claim C5, amended. In a chat with nothing pending and a transport that accepts the sends,
  each keyword starts a linear chain: the Sports chain has six steps, the Reading, Music and
  Art chains two each, so every chain has at least two and at most six steps. Every message
  of the chain finds exactly the next step pending; every step sends one prompt, fixed but
  for the prompt of \<open>handle_new_sport\<close>, which embeds the reply; and the final step sends the
  closing acknowledgment and leaves no continuation for the chat.
\<close>

theorem topic_chains_linear:
  assumes rel: "reliable w"
    and idle: "registry w c = None"
  shows "steps_run [inbound c t0 (Some ''Sports''), inbound c t1 x1, inbound c t2 x2,
                    inbound c t3 x3, inbound c t4 x4, inbound c t5 x5, inbound c t6 x6] w
           = [HandleSportsType, HandleFavoriteTeam, HandleCurrentSeason, HandleNextSport,
              HandleNewSport, HandleNewHobby]
     \<and> outbox (dispatch_all [inbound c t0 (Some ''Sports''), inbound c t1 x1, inbound c t2 x2,
                    inbound c t3 x3, inbound c t4 x4, inbound c t5 x5, inbound c t6 x6] w)
           = outbox w @
             [ReplyTo (inbound c t0 (Some ''Sports'')) ''Great choice! What kind of sports are you interested in?'',
              ReplyTo (inbound c t1 x1) ''Nice! What's your favorite team?'',
              ReplyTo (inbound c t2 x2) ''Great choice! What do you think of their current season so far?'',
              ReplyTo (inbound c t3 x3) ''Do you think they can improve ?'',
              ReplyTo (inbound c t4 x4) ''What else sports you are interested in?'',
              ReplyTo (inbound c t5 x5) (''have you taken part in '' @ or_else x5 ''that sport'' @ ''?''),
              ReplyTo (inbound c t6 x6) ''Great to know!'']
     \<and> registry (dispatch_all [inbound c t0 (Some ''Sports''), inbound c t1 x1, inbound c t2 x2,
                    inbound c t3 x3, inbound c t4 x4, inbound c t5 x5, inbound c t6 x6] w) c = None
     \<and> steps_run [inbound c t0 (Some ''Reading''), inbound c t1 x1, inbound c t2 x2] w
           = [HandleBookType, HandleFavBook]
     \<and> outbox (dispatch_all [inbound c t0 (Some ''Reading''), inbound c t1 x1, inbound c t2 x2] w)
           = outbox w @
             [ReplyTo (inbound c t0 (Some ''Reading'')) ''Awesome! What kind of books do you like to read?'',
              ReplyTo (inbound c t1 x1) ''What is your favourite book?'',
              ReplyTo (inbound c t2 x2) ''Great to know'']
     \<and> registry (dispatch_all [inbound c t0 (Some ''Reading''), inbound c t1 x1, inbound c t2 x2] w) c = None
     \<and> steps_run [inbound c t0 (Some ''Music''), inbound c t1 x1, inbound c t2 x2] w
           = [HandleFavType, HandleFavSong]
     \<and> outbox (dispatch_all [inbound c t0 (Some ''Music''), inbound c t1 x1, inbound c t2 x2] w)
           = outbox w @
             [ReplyTo (inbound c t0 (Some ''Music'')) ''Cool! What kind of music do you like to listen to?'',
              ReplyTo (inbound c t1 x1) ''Amazing choice. What's your fav song?'',
              ReplyTo (inbound c t2 x2) ''Great choice!'']
     \<and> registry (dispatch_all [inbound c t0 (Some ''Music''), inbound c t1 x1, inbound c t2 x2] w) c = None
     \<and> steps_run [inbound c t0 (Some ''Art''), inbound c t1 x1, inbound c t2 x2] w
           = [HandleArtist, HandleEventArt]
     \<and> outbox (dispatch_all [inbound c t0 (Some ''Art''), inbound c t1 x1, inbound c t2 x2] w)
           = outbox w @
             [ReplyTo (inbound c t0 (Some ''Art'')) ''Awesome! Are you an artist?'',
              ReplyTo (inbound c t1 x1) ''Have you taken part in any art event?'',
              ReplyTo (inbound c t2 x2) ''Great to know!'']
     \<and> registry (dispatch_all [inbound c t0 (Some ''Art''), inbound c t1 x1, inbound c t2 x2] w) c = None"
proof (intro conjI)
  note unfold = chain_defs take_def token_plain act_defs inbound_def
  show "steps_run [inbound c t0 (Some ''Sports''), inbound c t1 x1, inbound c t2 x2,
                    inbound c t3 x3, inbound c t4 x4, inbound c t5 x5, inbound c t6 x6] w
           = [HandleSportsType, HandleFavoriteTeam, HandleCurrentSeason, HandleNextSport,
              HandleNewSport, HandleNewHobby]"
    using rel idle by (simp add: unfold)
  show "outbox (dispatch_all [inbound c t0 (Some ''Sports''), inbound c t1 x1, inbound c t2 x2,
                    inbound c t3 x3, inbound c t4 x4, inbound c t5 x5, inbound c t6 x6] w)
           = outbox w @
             [ReplyTo (inbound c t0 (Some ''Sports'')) ''Great choice! What kind of sports are you interested in?'',
              ReplyTo (inbound c t1 x1) ''Nice! What's your favorite team?'',
              ReplyTo (inbound c t2 x2) ''Great choice! What do you think of their current season so far?'',
              ReplyTo (inbound c t3 x3) ''Do you think they can improve ?'',
              ReplyTo (inbound c t4 x4) ''What else sports you are interested in?'',
              ReplyTo (inbound c t5 x5) (''have you taken part in '' @ or_else x5 ''that sport'' @ ''?''),
              ReplyTo (inbound c t6 x6) ''Great to know!'']"
    using rel idle by (simp add: unfold)
  show "registry (dispatch_all [inbound c t0 (Some ''Sports''), inbound c t1 x1, inbound c t2 x2,
                    inbound c t3 x3, inbound c t4 x4, inbound c t5 x5, inbound c t6 x6] w) c = None"
    using rel idle by (simp add: unfold)
  show "steps_run [inbound c t0 (Some ''Reading''), inbound c t1 x1, inbound c t2 x2] w
           = [HandleBookType, HandleFavBook]"
    using rel idle by (simp add: unfold)
  show "outbox (dispatch_all [inbound c t0 (Some ''Reading''), inbound c t1 x1, inbound c t2 x2] w)
           = outbox w @
             [ReplyTo (inbound c t0 (Some ''Reading'')) ''Awesome! What kind of books do you like to read?'',
              ReplyTo (inbound c t1 x1) ''What is your favourite book?'',
              ReplyTo (inbound c t2 x2) ''Great to know'']"
    using rel idle by (simp add: unfold)
  show "registry (dispatch_all [inbound c t0 (Some ''Reading''), inbound c t1 x1, inbound c t2 x2] w) c = None"
    using rel idle by (simp add: unfold)
  show "steps_run [inbound c t0 (Some ''Music''), inbound c t1 x1, inbound c t2 x2] w
           = [HandleFavType, HandleFavSong]"
    using rel idle by (simp add: unfold)
  show "outbox (dispatch_all [inbound c t0 (Some ''Music''), inbound c t1 x1, inbound c t2 x2] w)
           = outbox w @
             [ReplyTo (inbound c t0 (Some ''Music'')) ''Cool! What kind of music do you like to listen to?'',
              ReplyTo (inbound c t1 x1) ''Amazing choice. What's your fav song?'',
              ReplyTo (inbound c t2 x2) ''Great choice!'']"
    using rel idle by (simp add: unfold)
  show "registry (dispatch_all [inbound c t0 (Some ''Music''), inbound c t1 x1, inbound c t2 x2] w) c = None"
    using rel idle by (simp add: unfold)
  show "steps_run [inbound c t0 (Some ''Art''), inbound c t1 x1, inbound c t2 x2] w
           = [HandleArtist, HandleEventArt]"
    using rel idle by (simp add: unfold)
  show "outbox (dispatch_all [inbound c t0 (Some ''Art''), inbound c t1 x1, inbound c t2 x2] w)
           = outbox w @
             [ReplyTo (inbound c t0 (Some ''Art'')) ''Awesome! Are you an artist?'',
              ReplyTo (inbound c t1 x1) ''Have you taken part in any art event?'',
              ReplyTo (inbound c t2 x2) ''Great to know!'']"
    using rel idle by (simp add: unfold)
  show "registry (dispatch_all [inbound c t0 (Some ''Art''), inbound c t1 x1, inbound c t2 x2] w) c = None"
    using rel idle by (simp add: unfold)
qed

theorem topic_chains_linear_witness:
  "reliable startup
   \<and> registry startup 2 = None
   \<and> steps_run [inbound 2 ''group'' (Some ''Sports''), inbound 2 ''group'' (Some ''tennis''),
                inbound 2 ''group'' None, inbound 2 ''group'' (Some ''so so''),
                inbound 2 ''group'' (Some ''maybe''), inbound 2 ''group'' (Some ''Golf''),
                inbound 2 ''group'' (Some ''never'')] startup
       = [HandleSportsType, HandleFavoriteTeam, HandleCurrentSeason, HandleNextSport,
          HandleNewSport, HandleNewHobby]
   \<and> registry (dispatch_all [inbound 2 ''group'' (Some ''Sports''), inbound 2 ''group'' (Some ''tennis''),
                inbound 2 ''group'' None, inbound 2 ''group'' (Some ''so so''),
                inbound 2 ''group'' (Some ''maybe''), inbound 2 ''group'' (Some ''Golf''),
                inbound 2 ''group'' (Some ''never'')] startup) 2 = None
   \<and> steps_run [inbound 2 ''group'' (Some ''Reading''), inbound 2 ''group'' (Some ''tennis''),
                inbound 2 ''group'' None] startup
       = [HandleBookType, HandleFavBook]
   \<and> steps_run [inbound 2 ''group'' (Some ''Music''), inbound 2 ''group'' (Some ''tennis''),
                inbound 2 ''group'' None] startup
       = [HandleFavType, HandleFavSong]
   \<and> steps_run [inbound 2 ''group'' (Some ''Art''), inbound 2 ''group'' (Some ''tennis''),
                inbound 2 ''group'' None] startup
       = [HandleArtist, HandleEventArt]"
proof -
  have idle: "registry startup 2 = None"
    by (simp add: startup_def)
  note chains = topic_chains_linear [OF reliable_startup idle,
      of "''group''" "''group''" "Some ''tennis''" "''group''" "None" "''group''" "Some ''so so''"
         "''group''" "Some ''maybe''" "''group''" "Some ''Golf''" "''group''" "Some ''never''"]
  show ?thesis
    using reliable_startup idle chains by blast
qed

end
